theory Spec2Isabelle
  imports
    Main
    "HOL-Library.Char_ord"
    "HOL-Library.List_Lexorder"
    "HOL-Library.Multiset"
begin

section \<open>Embedding of \<^verbatim>\<open>plugin/pki/util.go\<close>\<close>

text \<open>
  The Go package \<^verbatim>\<open>pki\<close> of the Venafi secrets-engine plugin is embedded function by
  function. Go strings are byte sequences and become \<^typ>\<open>string\<close>; \<^verbatim>\<open>sort.Strings\<close>
  orders them bytewise and lexicographically, which is the order that the library
  theories on characters and lists give to \<^typ>\<open>string\<close>. A Go \<^verbatim>\<open>error\<close> is
  represented by its message, and \<^verbatim>\<open>nil\<close> by \<^const>\<open>None\<close>.
\<close>

type_synonym error = string

subsection \<open>Serial numbers\<close>

text \<open>
  \<^verbatim>\<open>strings.ToLower\<close> works on the runes of a string, not on its bytes, so for
  \<^verbatim>\<open>normalizeSerial\<close> a string is the sequence of the runes that ranging over it
  yields, each a code point. \<^verbatim>\<open>unicode.ToLower\<close> treats the ASCII range itself and
  consults the case tables of the Go runtime for every other rune; these tables are no
  part of the plugin and enter as the parameter \<open>toLowerCase\<close>.
\<close>

type_synonym rune = nat

text \<open>The runes of an ASCII text are its bytes.\<close>

definition runes :: "string \<Rightarrow> rune list" where
  "runes s = map of_char s"

definition unicode_ToLower :: "(rune \<Rightarrow> rune) \<Rightarrow> rune \<Rightarrow> rune" where
  "unicode_ToLower toLowerCase r =
     (if r \<le> 127 then
        (if of_char CHR ''A'' \<le> r \<and> r \<le> of_char CHR ''Z''
         then r + (of_char CHR ''a'' - of_char CHR ''A'') else r)
      else toLowerCase r)"

definition strings_ToLower :: "(rune \<Rightarrow> rune) \<Rightarrow> rune list \<Rightarrow> rune list" where
  "strings_ToLower toLowerCase s = map (unicode_ToLower toLowerCase) s"

text \<open>
  \<^verbatim>\<open>strings.Replace(s, old, new, n)\<close> replaces the leftmost non-overlapping
  occurrences of \<open>old\<close>, at most \<open>n\<close> of them, and all of them when \<open>n\<close> is negative.
  The scan below carries the number of replacements still allowed; a negative number
  stays negative. An empty \<open>old\<close> (which Go matches between runes) is left alone here:
  the plugin never passes one.
\<close>

function replaceFrom :: "'a list \<Rightarrow> 'a list \<Rightarrow> int \<Rightarrow> 'a list \<Rightarrow> 'a list" where
  "replaceFrom old new n [] = []"
| "replaceFrom old new n (c # cs) =
     (if n \<noteq> 0 \<and> old \<noteq> [] \<and> take (length old) (c # cs) = old
      then new @ replaceFrom old new (n - 1) (drop (length old) (c # cs))
      else c # replaceFrom old new n cs)"
  by pat_completeness auto
termination
  by (relation "measure (\<lambda>(old, new, n, s). length s)") auto

definition strings_Replace :: "'a list \<Rightarrow> 'a list \<Rightarrow> 'a list \<Rightarrow> int \<Rightarrow> 'a list" where
  "strings_Replace s old new n = (if old = new \<or> n = 0 then s else replaceFrom old new n s)"

definition normalizeSerial :: "(rune \<Rightarrow> rune) \<Rightarrow> rune list \<Rightarrow> rune list" where
  "normalizeSerial toLowerCase serial =
     strings_Replace (strings_ToLower toLowerCase serial) (runes '':'') (runes ''-'') (- 1)"

subsection \<open>Comparing name and address lists\<close>

definition sort_Strings :: "string list \<Rightarrow> string list" where
  "sort_Strings xs = sort xs"

text \<open>
  \<^verbatim>\<open>net.IP.String\<close> belongs to the standard library; \<^verbatim>\<open>SameIpSlice\<close> is embedded
  for an arbitrary address type and an arbitrary rendering \<open>String\<close>. Both index scans
  range over \<open>x\<close>; the length test in front of them keeps every read of \<open>y\<close> in range.
\<close>

definition SameIpSlice :: "('ip \<Rightarrow> string) \<Rightarrow> 'ip list \<Rightarrow> 'ip list \<Rightarrow> bool" where
  "SameIpSlice String x y =
     (if length x \<noteq> length y then False
      else let x1 = map (\<lambda>i. String (x ! i)) [0..<length x];
               y1 = map (\<lambda>i. String (y ! i)) [0..<length x];
               x1 = sort_Strings x1;
               y1 = sort_Strings y1
           in list_all (\<lambda>i. x1 ! i = y1 ! i) [0..<length x1])"

definition SameStringSlice :: "string list \<Rightarrow> string list \<Rightarrow> bool" where
  "SameStringSlice x y =
     (if length x \<noteq> length y then False
      else let x1 = sort_Strings x; y1 = sort_Strings y
           in list_all (\<lambda>i. x1 ! i = y1 ! i) [0..<length x1])"

text \<open>The inner scans of \<^verbatim>\<open>areDNSNamesCorrect\<close>: scan \<open>names\<close> until \<open>name\<close> is found.\<close>

definition found :: "string list \<Rightarrow> string \<Rightarrow> bool" where
  "found names name = list_ex (\<lambda>candidate. candidate = name) names"

definition areDNSNamesCorrect :: "string list \<Rightarrow> string list \<Rightarrow> string list \<Rightarrow> bool" where
  "areDNSNamesCorrect actualAltNames expectedCNNames expectedAltNames =
     (if length expectedCNNames = 0 then
        (if length actualAltNames \<noteq> length expectedAltNames then False
         else if \<not> SameStringSlice actualAltNames expectedAltNames then False
         else True)
      else
        (if length actualAltNames < length expectedAltNames then False
         else if \<not> list_all (found actualAltNames) expectedAltNames then False
         else let allNames = expectedAltNames @ expectedCNNames
              in if \<not> list_all (found allNames) actualAltNames then False
                 else True))"

text \<open>
  The IPv4 part of the standard library's \<^verbatim>\<open>net.IP.String\<close>, for concrete addresses:
  an address is a byte slice; a 4-byte slice, or a 16-byte slice that carries the
  IPv4-in-IPv6 prefix, prints in dotted decimal and the empty slice as \<^verbatim>\<open><nil>\<close>. The
  text of any other address is left to the parameter \<open>other\<close>.
\<close>

function uitoa :: "nat \<Rightarrow> string" where
  "uitoa n =
     (if n < 10 then [char_of (of_char CHR ''0'' + n)]
      else uitoa (n div 10) @ [char_of (of_char CHR ''0'' + n mod 10)])"
  by pat_completeness auto
termination
  by (relation "measure (\<lambda>n. n)") auto

definition To4 :: "nat list \<Rightarrow> nat list option" where
  "To4 ip =
     (if length ip = 4 then Some ip
      else if length ip = 16 \<and> take 12 ip = replicate 10 0 @ [255, 255] then Some (drop 12 ip)
      else None)"

definition IP_String :: "(nat list \<Rightarrow> string) \<Rightarrow> nat list \<Rightarrow> string" where
  "IP_String other ip =
     (if length ip = 0 then ''<nil>''
      else case To4 ip of
             Some p4 \<Rightarrow>
               uitoa (p4 ! 0) @ ''.'' @ uitoa (p4 ! 1) @ ''.'' @ uitoa (p4 ! 2) @ ''.''
                 @ uitoa (p4 ! 3)
           | None \<Rightarrow> other ip)"

definition fold_rune :: "(rune \<Rightarrow> rune) \<Rightarrow> rune \<Rightarrow> rune" where
  \<comment> \<open>what \<^const>\<open>normalizeSerial\<close> does to one rune: lower it, then turn a colon into a dash\<close>
  "fold_rune toLowerCase r =
     (if unicode_ToLower toLowerCase r = of_char CHR '':'' then of_char CHR ''-''
      else unicode_ToLower toLowerCase r)"

subsection \<open>Trust bundles and the HTTP client\<close>

text \<open>
  \<^verbatim>\<open>crypto/x509\<close> is a library: the pool type and its two operations are parameters.
  \<^verbatim>\<open>AppendCertsFromPEM\<close> returns the pool it has extended together with its verdict,
  which is false when the data held no certificate that could be parsed.
\<close>

record 'pool x509 =
  NewCertPool :: "'pool"
  AppendCertsFromPEM :: "'pool \<Rightarrow> string \<Rightarrow> 'pool \<times> bool"

definition parseTrustBundlePEM :: "'pool x509 \<Rightarrow> string \<Rightarrow> error + 'pool" where
  "parseTrustBundlePEM lib trustBundlePem =
     (if trustBundlePem \<noteq> [] then
        (let connectionTrustBundle = NewCertPool lib;
             (connectionTrustBundle, ok) =
                AppendCertsFromPEM lib connectionTrustBundle trustBundlePem
         in if \<not> ok then Inl ''failed to parse PEM trust bundle''
            else Inr connectionTrustBundle)
      else Inl ''trust bundle PEM data is empty'')"

text \<open>
  Of \<^verbatim>\<open>tls.Config\<close> the two fields that the plugin assigns are kept. Configurations
  live in a store indexed by address, because \<^verbatim>\<open>getHTTPClient\<close> works on a pointer
  that may be the one held by \<^verbatim>\<open>http.DefaultTransport\<close>: \<open>tlsConfigs\<close> maps an address
  to the configuration there, addresses below \<open>allocated\<close> are in use, and
  \<open>DefaultTransport_TLSClientConfig\<close> is the pointer of the process-wide default
  transport (\<^const>\<open>None\<close> for \<^verbatim>\<open>nil\<close>, as it is in a fresh Go process).
\<close>

datatype RenegotiationSupport =
  RenegotiateNever | RenegotiateOnceAsClient | RenegotiateFreelyAsClient

record 'pool tls_Config =
  RootCAs :: "'pool option"
  Renegotiation :: RenegotiationSupport

type_synonym duration = int

definition Second :: duration where
  "Second = 1000000000"

datatype proxy = ProxyFromEnvironment

record net_Dialer =
  Dialer_Timeout :: duration
  KeepAlive :: duration
  DualStack :: bool

record http_Transport =
  Proxy :: proxy
  DialContext :: net_Dialer
  MaxIdleConns :: int
  IdleConnTimeout :: duration
  TLSHandshakeTimeout :: duration
  ExpectContinueTimeout :: duration
  TLSClientConfig :: "nat option"

record http_Client =
  Timeout :: duration
  Transport :: http_Transport

record 'pool process =
  tlsConfigs :: "nat \<Rightarrow> 'pool tls_Config"
  allocated :: nat
  DefaultTransport_TLSClientConfig :: "nat option"

text \<open>A call either returns or panics; dereferencing \<^verbatim>\<open>nil\<close> panics.\<close>

datatype 'a exec = Returns 'a | Panics

definition new_tls_Config ::
  "'pool tls_Config \<Rightarrow> ('pool, 'z) process_scheme \<Rightarrow> nat \<times> ('pool, 'z) process_scheme" where
  "new_tls_Config c s =
     (allocated s,
      s\<lparr>tlsConfigs := (tlsConfigs s)(allocated s := c), allocated := Suc (allocated s)\<rparr>)"

definition tls_Config_Clone ::
  "nat \<Rightarrow> ('pool, 'z) process_scheme \<Rightarrow> nat \<times> ('pool, 'z) process_scheme" where
  "tls_Config_Clone p s = new_tls_Config (tlsConfigs s p) s"

definition getHTTPClient ::
  "'pool x509 \<Rightarrow> string \<Rightarrow> ('pool, 'z) process_scheme
     \<Rightarrow> (error + http_Client) exec \<times> ('pool, 'z) process_scheme" where
  "getHTTPClient lib trustBundlePem s =
     (let netTransport = \<lparr>
            Proxy = ProxyFromEnvironment,
            DialContext =
              \<lparr>Dialer_Timeout = 30 * Second, KeepAlive = 30 * Second, DualStack = True\<rparr>,
            MaxIdleConns = 100,
            IdleConnTimeout = 90 * Second,
            TLSHandshakeTimeout = 10 * Second,
            ExpectContinueTimeout = 1 * Second,
            TLSClientConfig = None\<rparr>;
          tlsConfig = DefaultTransport_TLSClientConfig s
      in case (if trustBundlePem \<noteq> [] then
                 (case parseTrustBundlePEM lib trustBundlePem of
                    Inl err \<Rightarrow> Inl err
                  | Inr trustBundle \<Rightarrow>
                      (let (tlsConfig, s) =
                             (case tlsConfig of
                                None \<Rightarrow>
                                  new_tls_Config
                                    \<lparr>RootCAs = None, Renegotiation = RenegotiateNever\<rparr> s
                              | Some shared \<Rightarrow> tls_Config_Clone shared s)
                       in Inr (Some tlsConfig,
                               s\<lparr>tlsConfigs := (tlsConfigs s)
                                    (tlsConfig :=
                                       (tlsConfigs s tlsConfig)\<lparr>RootCAs := Some trustBundle\<rparr>)\<rparr>)))
               else Inr (tlsConfig, s)) of
           Inl err \<Rightarrow> (Returns (Inl err), s)
         | Inr (tlsConfig, s) \<Rightarrow>
             (case tlsConfig of
                None \<Rightarrow> (Panics, s)
              | Some p \<Rightarrow>
                  (let s = s\<lparr>tlsConfigs := (tlsConfigs s)
                              (p := (tlsConfigs s p)
                                      \<lparr>Renegotiation := RenegotiateFreelyAsClient\<rparr>)\<rparr>;
                       netTransport = netTransport\<lparr>TLSClientConfig := Some p\<rparr>;
                       client = \<lparr>Timeout = Second * 30, Transport = netTransport\<rparr>
                   in (Returns (Inr client), s))))"

subsection \<open>Refreshing and storing the access token\<close>

text \<open>
  The records keep the fields that \<^verbatim>\<open>util.go\<close> reads or writes. The role entry and the
  Venafi secret entry are declared elsewhere in the plugin; the functions below accept
  any extension of the records given here, so whatever other fields the entries have is
  carried along untouched. In the field names of the secret entry the prefix
  \<open>entry_\<close> avoids a clash with \<^verbatim>\<open>endpoint.Authentication\<close>.
\<close>

record Authentication =
  RefreshToken :: string
  ClientId :: string
  Scope :: string

record OauthRefreshAccessTokenResponse =
  Access_token :: string
  Refresh_token :: string

record vcert_Config =
  ConnectionTrust :: string
  BaseUrl :: string
  LogVerbose :: bool
  Credentials :: "Authentication option"

record 'pool tpp_Connector =
  baseURL :: string
  trust :: "'pool option"
  conn_client :: "http_Client option"

record roleEntry =
  VenafiSecret :: string

record venafiSecretEntry =
  entry_AccessToken :: string
  entry_RefreshToken :: string

record StorageEntry =
  Key :: string
  Value :: string

text \<open>
  The state that a request can change: the TLS configurations of the process, the
  storage of the request (keys to encoded entries), and two journals kept for the
  proofs, one of the entries handed to \<^verbatim>\<open>Storage.Put\<close> and one of the requests handed
  to the connector's \<^verbatim>\<open>RefreshAccessToken\<close>.
\<close>

record 'pool backend = "'pool process" +
  Storage :: "string \<rightharpoonup> string"
  puts :: "StorageEntry list"
  refreshRequests :: "Authentication list"

text \<open>
  Everything that \<^verbatim>\<open>util.go\<close> calls and that lies outside the file is a field of the
  environment: the certificate library, the constructor and the refresh operation of
  the vcert TPP connector, the two readers \<^verbatim>\<open>getRole\<close> and \<^verbatim>\<open>getVenafiSecret\<close> of the
  backend (each may fail, or succeed with a \<^verbatim>\<open>nil\<close> entry), the constant
  \<^verbatim>\<open>CredentialsRootPath\<close>, the JSON encoder of the Vault SDK, and the verdict of the
  storage on a write.
\<close>

record ('pool, 'r, 'v) environment =
  crypto_x509 :: "'pool x509"
  tpp_NewConnector ::
    "string \<Rightarrow> string \<Rightarrow> bool \<Rightarrow> 'pool option \<Rightarrow> error + 'pool tpp_Connector"
  RefreshAccessToken ::
    "'pool tpp_Connector \<Rightarrow> Authentication
       \<Rightarrow> OauthRefreshAccessTokenResponse \<times> error option"
  getRole :: "(string \<rightharpoonup> string) \<Rightarrow> string \<Rightarrow> error + 'r roleEntry_scheme option"
  getVenafiSecret ::
    "(string \<rightharpoonup> string) \<Rightarrow> string \<Rightarrow> error + 'v venafiSecretEntry_scheme option"
  CredentialsRootPath :: string
  StorageEntryJSON :: "string \<Rightarrow> 'v venafiSecretEntry_scheme \<Rightarrow> error + StorageEntry"
  Storage_Put_error :: "StorageEntry \<Rightarrow> error option"

text \<open>A write that the storage refuses leaves the stored data as it was.\<close>

definition Storage_Put ::
  "('pool, 'r, 'v) environment \<Rightarrow> StorageEntry \<Rightarrow> ('pool, 'z) backend_scheme
     \<Rightarrow> error option \<times> ('pool, 'z) backend_scheme" where
  "Storage_Put env entry s =
     (let s = s\<lparr>puts := puts s @ [entry]\<rparr>
      in case Storage_Put_error env entry of
           Some err \<Rightarrow> (Some err, s)
         | None \<Rightarrow> (None, s\<lparr>Storage := (Storage s)(Key entry \<mapsto> Value entry)\<rparr>))"

definition getTppConnector ::
  "('pool, 'r, 'v) environment \<Rightarrow> 'c vcert_Config_scheme \<Rightarrow> error + 'pool tpp_Connector" where
  "getTppConnector env cfg =
     (case (if ConnectionTrust cfg \<noteq> [] then
              (let connectionTrustBundle = NewCertPool (crypto_x509 env);
                   (connectionTrustBundle, ok) =
                      AppendCertsFromPEM (crypto_x509 env) connectionTrustBundle
                        (ConnectionTrust cfg)
               in if \<not> ok then Inl ''failed to parse PEM trust bundle''
                  else Inr (Some connectionTrustBundle))
            else Inr None) of
        Inl err \<Rightarrow> Inl err
      | Inr connectionTrustBundle \<Rightarrow>
          (case tpp_NewConnector env (BaseUrl cfg) [] (LogVerbose cfg) connectionTrustBundle of
             Inl err \<Rightarrow> Inl (''could not create TPP connector: '' @ err)
           | Inr tppConnector \<Rightarrow> Inr tppConnector))"

definition storeAccessData ::
  "('pool, 'r, 'v) environment \<Rightarrow> string \<Rightarrow> OauthRefreshAccessTokenResponse
     \<Rightarrow> ('pool, 'z) backend_scheme \<Rightarrow> error option exec \<times> ('pool, 'z) backend_scheme" where
  "storeAccessData env roleName resp s =
     (case getRole env (Storage s) roleName of
        Inl err \<Rightarrow> (Returns (Some err), s)
      | Inr None \<Rightarrow> (Panics, s)
      | Inr (Some entry) \<Rightarrow>
          if VenafiSecret entry = [] then
            (Returns (Some (''Role '' @ roleName
                              @ '' does not have any Venafi secret associated'')), s)
          else
            (case getVenafiSecret env (Storage s) (VenafiSecret entry) of
               Inl err \<Rightarrow> (Returns (Some err), s)
             | Inr None \<Rightarrow> (Panics, s)
             | Inr (Some venafiEntry) \<Rightarrow>
                 (let venafiEntry = venafiEntry\<lparr>entry_AccessToken := Access_token resp\<rparr>;
                      venafiEntry = venafiEntry\<lparr>entry_RefreshToken := Refresh_token resp\<rparr>
                  in case StorageEntryJSON env
                            (CredentialsRootPath env @ VenafiSecret entry) venafiEntry of
                       Inl err \<Rightarrow> (Returns (Some err), s)
                     | Inr jsonEntry \<Rightarrow>
                         (case Storage_Put env jsonEntry s of
                            (Some err, s) \<Rightarrow> (Returns (Some err), s)
                          | (None, s) \<Rightarrow> (Returns None, s)))))"

text \<open>
  \<^verbatim>\<open>updateAccessToken\<close> drops the error of \<^verbatim>\<open>getTppConnector\<close>, so the connector may
  be \<^verbatim>\<open>nil\<close> when \<^verbatim>\<open>SetHTTPClient\<close> is called on it; \<^verbatim>\<open>cfg.Credentials\<close> is a pointer
  as well.
\<close>

definition updateAccessToken ::
  "('pool, 'r, 'v) environment \<Rightarrow> 'c vcert_Config_scheme \<Rightarrow> string
     \<Rightarrow> ('pool, 'z) backend_scheme \<Rightarrow> error option exec \<times> ('pool, 'z) backend_scheme" where
  "updateAccessToken env cfg roleName s =
     (let tppConnector = (case getTppConnector env cfg of Inl _ \<Rightarrow> None | Inr c \<Rightarrow> Some c)
      in case getHTTPClient (crypto_x509 env) (ConnectionTrust cfg) s of
           (Panics, s) \<Rightarrow> (Panics, s)
         | (Returns (Inl err), s) \<Rightarrow> (Returns (Some err), s)
         | (Returns (Inr httpClient), s) \<Rightarrow>
             (case tppConnector of
                None \<Rightarrow> (Panics, s)
              | Some tppConnector \<Rightarrow>
                  (let tppConnector = tppConnector\<lparr>conn_client := Some httpClient\<rparr>
                   in case Credentials cfg of
                        None \<Rightarrow> (Panics, s)
                      | Some credentials \<Rightarrow>
                          (let request = \<lparr>RefreshToken = RefreshToken credentials,
                                           ClientId = ''hashicorp-vault-by-venafi'',
                                           Scope = ''certificate:manage,revoke''\<rparr>;
                               s = s\<lparr>refreshRequests := refreshRequests s @ [request]\<rparr>;
                               (resp, err) = RefreshAccessToken env tppConnector request
                           in if Access_token resp \<noteq> [] \<and> Refresh_token resp \<noteq> [] then
                                (case storeAccessData env roleName resp s of
                                   (Panics, s) \<Rightarrow> (Panics, s)
                                 | (Returns (Some err), s) \<Rightarrow> (Returns (Some err), s)
                                 | (Returns None, s) \<Rightarrow> (Returns None, s))
                              else (Returns err, s)))))"

subsection \<open>A concrete deployment\<close>

text \<open>
  One instance of the environment, for running the functions on concrete input: a
  certificate library that knows a single bundle, a connector that rotates the token
  pair when it is shown the refresh token in force, and readers and an encoder that
  keep a role under \<^verbatim>\<open>role/\<close> as the name of its secret and a secret under
  \<^verbatim>\<open>venafi/\<close> as its two tokens separated by a blank.
\<close>

definition sample_x509 :: "string list x509" where
  "sample_x509 =
     \<lparr>NewCertPool = [],
      AppendCertsFromPEM =
        (\<lambda>pool pem. if pem = ''ca.pem'' then (pool @ [''ca''], True) else (pool, False))\<rparr>"

definition sample_env :: "(string list, unit, unit) environment" where
  "sample_env =
     \<lparr>crypto_x509 = sample_x509,
      tpp_NewConnector =
        (\<lambda>url zone verbose pool.
           if url = [] then Inl ''empty URL''
           else Inr \<lparr>baseURL = url, trust = pool, conn_client = None\<rparr>),
      RefreshAccessToken =
        (\<lambda>connector request.
           if RefreshToken request = ''old-refresh''
           then (\<lparr>Access_token = ''new-access'', Refresh_token = ''new-refresh''\<rparr>, None)
           else (\<lparr>Access_token = [], Refresh_token = []\<rparr>, Some ''invalid_grant'')),
      getRole =
        (\<lambda>storage name.
           case storage (''role/'' @ name) of
             None \<Rightarrow> Inr None
           | Some secret \<Rightarrow> Inr (Some \<lparr>VenafiSecret = secret\<rparr>)),
      getVenafiSecret =
        (\<lambda>storage name.
           case storage (''venafi/'' @ name) of
             None \<Rightarrow> Inr None
           | Some tokens \<Rightarrow>
               Inr (Some \<lparr>entry_AccessToken = takeWhile (\<lambda>c. c \<noteq> CHR '' '') tokens,
                          entry_RefreshToken = drop 1 (dropWhile (\<lambda>c. c \<noteq> CHR '' '') tokens)\<rparr>)),
      CredentialsRootPath = ''venafi/'',
      StorageEntryJSON =
        (\<lambda>key entry.
           Inr \<lparr>Key = key, Value = entry_AccessToken entry @ '' '' @ entry_RefreshToken entry\<rparr>),
      Storage_Put_error = (\<lambda>entry. None)\<rparr>"

definition silent_env :: "(string list, unit, unit) environment" where
  \<comment> \<open>the same deployment behind a server that answers without tokens and without an error\<close>
  "silent_env =
     sample_env\<lparr>RefreshAccessToken :=
       (\<lambda>connector request. (\<lparr>Access_token = [], Refresh_token = []\<rparr>, None))\<rparr>"

definition sample_cfg :: vcert_Config where
  "sample_cfg =
     \<lparr>ConnectionTrust = ''ca.pem'',
      BaseUrl = ''https://tpp.example.com/vedsdk/'',
      LogVerbose = False,
      Credentials = Some \<lparr>RefreshToken = ''old-refresh'', ClientId = [], Scope = []\<rparr>\<rparr>"

definition stale_cfg :: vcert_Config where
  \<comment> \<open>the same configuration holding a refresh token other than the stored one\<close>
  "stale_cfg =
     sample_cfg\<lparr>Credentials := Some \<lparr>RefreshToken = ''stale'', ClientId = [], Scope = []\<rparr>\<rparr>"

definition sample_backend :: "string list backend" where
  "sample_backend =
     \<lparr>tlsConfigs = (\<lambda>address. \<lparr>RootCAs = None, Renegotiation = RenegotiateNever\<rparr>),
      allocated = 0,
      DefaultTransport_TLSClientConfig = None,
      Storage = [''role/tpp-role'' \<mapsto> ''tpp-secret'',
                 ''role/bare-role'' \<mapsto> [],
                 ''venafi/tpp-secret'' \<mapsto> ''old-access old-refresh''],
      puts = [],
      refreshRequests = []\<rparr>"



definition shared_default :: "string list process" where
  \<comment> \<open>a process whose default transport has been given a TLS configuration, at address 0\<close>
  "shared_default =
     \<lparr>tlsConfigs = (\<lambda>address. \<lparr>RootCAs = None, Renegotiation = RenegotiateNever\<rparr>),
      allocated = 1,
      DefaultTransport_TLSClientConfig = Some 0\<rparr>"

section \<open>Properties\<close>

subsection \<open>Sorted comparison is multiset equality\<close>

lemma sort_eq_iff_mset: "sort xs = sort ys \<longleftrightarrow> mset xs = mset ys"
proof
  assume "sort xs = sort ys"
  then have "mset (sort xs) = mset (sort ys)" by (rule arg_cong)
  then show "mset xs = mset ys" by (simp only: mset_sort)
next
  assume "mset xs = mset ys"
  then have "mset (sort ys) = mset xs" by (simp only: mset_sort)
  then show "sort xs = sort ys" by (rule properties_for_sort) (rule sorted_sort)
qed

lemma pointwise_eq_iff:
  assumes "length xs = length ys"
  shows "list_all (\<lambda>i. xs ! i = ys ! i) [0..<length xs] \<longleftrightarrow> xs = ys"
proof
  assume "list_all (\<lambda>i. xs ! i = ys ! i) [0..<length xs]"
  then have "\<And>i. i < length xs \<Longrightarrow> xs ! i = ys ! i"
    by (simp add: list_all_iff)
  with assms show "xs = ys" by (rule nth_equalityI)
next
  assume "xs = ys"
  then show "list_all (\<lambda>i. xs ! i = ys ! i) [0..<length xs]"
    by (simp add: list_all_iff)
qed

lemma sorted_pointwise_eq:
  assumes "length xs = length ys"
  shows "list_all (\<lambda>i. sort xs ! i = sort ys ! i) [0..<length (sort xs)] \<longleftrightarrow> mset xs = mset ys"
proof -
  have "length (sort xs) = length (sort ys)" using assms by simp
  from pointwise_eq_iff[OF this] show ?thesis by (simp only: sort_eq_iff_mset)
qed

lemma SameStringSlice_mset: "SameStringSlice x y \<longleftrightarrow> mset x = mset y"
proof (cases "length x = length y")
  case True
  have "SameStringSlice x y \<longleftrightarrow> list_all (\<lambda>i. sort x ! i = sort y ! i) [0..<length (sort x)]"
    unfolding SameStringSlice_def sort_Strings_def Let_def using True
    by (simp only: if_False simp_thms)
  then show ?thesis by (simp only: sorted_pointwise_eq[OF True])
next
  case False
  then have "mset x \<noteq> mset y" by (metis size_mset)
  with False show ?thesis by (simp add: SameStringSlice_def)
qed

lemma index_loop_map: "length x = n \<Longrightarrow> map (\<lambda>i. f (x ! i)) [0..<n] = map f x"
  by (auto simp add: list_eq_iff_nth_eq)

lemma SameIpSlice_mset:
  "SameIpSlice String x y \<longleftrightarrow> mset (map String x) = mset (map String y)"
proof (cases "length x = length y")
  case True
  have x1: "map (\<lambda>i. String (x ! i)) [0..<length x] = map String x"
    by (rule index_loop_map) (rule refl)
  have y1: "map (\<lambda>i. String (y ! i)) [0..<length x] = map String y"
    by (rule index_loop_map) (rule True[symmetric])
  have len: "length (map String x) = length (map String y)" using True by simp
  have "SameIpSlice String x y \<longleftrightarrow>
        list_all (\<lambda>i. sort (map String x) ! i = sort (map String y) ! i)
          [0..<length (sort (map String x))]"
    unfolding SameIpSlice_def sort_Strings_def Let_def x1 y1 using True
    by (simp only: if_False simp_thms)
  then show ?thesis by (simp only: sorted_pointwise_eq[OF len])
next
  case False
  then have "mset (map String x) \<noteq> mset (map String y)" by (metis size_mset length_map)
  with False show ?thesis by (simp add: SameIpSlice_def)
qed

subsection \<open>Serial numbers\<close>

lemma replaceFrom_single:
  "n < 0 \<Longrightarrow> replaceFrom [c] [d] n s = map (\<lambda>x. if x = c then d else x) s"
  by (induction s arbitrary: n) auto

lemma normalizeSerial_fold: "normalizeSerial t s = map (fold_rune t) s"
  by (simp add: normalizeSerial_def strings_Replace_def strings_ToLower_def runes_def
      replaceFrom_single fold_rune_def comp_def)

lemma ToLower_ascii:
  "r \<le> 127 \<Longrightarrow>
     unicode_ToLower t r \<le> 127 \<and> \<not> (65 \<le> unicode_ToLower t r \<and> unicode_ToLower t r \<le> 90)"
  by (auto simp: unicode_ToLower_def)

lemma ToLower_fixed:
  "r \<le> 127 \<Longrightarrow> \<not> (65 \<le> r \<and> r \<le> 90) \<Longrightarrow> unicode_ToLower t r = r"
  by (auto simp: unicode_ToLower_def)

lemma ToLower_table:
  assumes "\<forall>r. 127 < r \<longrightarrow> unicode_ToLower t (t r) = t r \<and> t r \<noteq> of_char CHR '':''"
    and "127 < r"
  shows "unicode_ToLower t r = t r" "unicode_ToLower t (t r) = t r" "t r \<noteq> 58"
    "\<not> (65 \<le> t r \<and> t r \<le> 90)"
proof -
  show "unicode_ToLower t r = t r" using assms(2) by (simp add: unicode_ToLower_def)
  show fixed: "unicode_ToLower t (t r) = t r" using assms by blast
  show "t r \<noteq> 58" using assms by simp
  show "\<not> (65 \<le> t r \<and> t r \<le> 90)"
  proof
    assume "65 \<le> t r \<and> t r \<le> 90"
    then have "unicode_ToLower t (t r) = t r + 32" by (simp add: unicode_ToLower_def)
    with fixed show False by simp
  qed
qed

lemma fold_rune_stable:
  assumes "\<forall>r. 127 < r \<longrightarrow> unicode_ToLower t (t r) = t r \<and> t r \<noteq> of_char CHR '':''"
  shows "fold_rune t (fold_rune t r) = fold_rune t r \<and> fold_rune t r \<noteq> 58
      \<and> \<not> (65 \<le> fold_rune t r \<and> fold_rune t r \<le> 90)"
proof (cases "r \<le> 127")
  case True
  from ToLower_ascii[OF True, of t]
  have a: "fold_rune t r \<le> 127" "\<not> (65 \<le> fold_rune t r \<and> fold_rune t r \<le> 90)"
    "fold_rune t r \<noteq> 58"
    by (auto simp: fold_rune_def)
  then have "unicode_ToLower t (fold_rune t r) = fold_rune t r" by (intro ToLower_fixed)
  with a show ?thesis by (simp add: fold_rune_def[of t "fold_rune t r"])
next
  case False
  then have "127 < r" by simp
  note tab = ToLower_table[OF assms this]
  have "fold_rune t r = t r" using tab by (simp add: fold_rune_def)
  then show ?thesis using tab by (simp add: fold_rune_def)
qed

text \<open>
  C9. \<^const>\<open>normalizeSerial\<close> is idempotent, and its result holds neither a colon nor an
  upper-case ASCII letter. What is asked of the case tables of the Go runtime is that
  lowering a rune outside ASCII gives a rune that lowering leaves alone, and never a colon.
\<close>

theorem normalizeSerial_idempotent:
  assumes "\<forall>r. 127 < r \<longrightarrow>
      unicode_ToLower toLowerCase (toLowerCase r) = toLowerCase r
      \<and> toLowerCase r \<noteq> of_char CHR '':''"
  shows "normalizeSerial toLowerCase (normalizeSerial toLowerCase s) = normalizeSerial toLowerCase s
     \<and> of_char CHR '':'' \<notin> set (normalizeSerial toLowerCase s)
     \<and> (\<forall>r \<in> set (normalizeSerial toLowerCase s).
           \<not> (of_char CHR ''A'' \<le> r \<and> r \<le> of_char CHR ''Z''))"
  using fold_rune_stable[OF assms] by (auto simp add: normalizeSerial_fold)

theorem normalizeSerial_idempotent_witness:
  "normalizeSerial (\<lambda>r. if r = 201 then 233 else if r = 8490 then 107 else r)
       (runes ''4A:b0:0F'' @ [201, 8490])
     = runes ''4a-b0-0f'' @ [233, 107]
   \<and> normalizeSerial (\<lambda>r. if r = 201 then 233 else if r = 8490 then 107 else r)
       (runes ''4a-b0-0f'' @ [233, 107])
     = runes ''4a-b0-0f'' @ [233, 107]"
proof -
  let ?t = "\<lambda>r::rune. if r = 201 then 233 else if r = 8490 then 107 else r"
  let ?s = "runes ''4A:b0:0F'' @ [201, 8490]"
  have tables: "\<forall>r. 127 < r \<longrightarrow> unicode_ToLower ?t (?t r) = ?t r \<and> ?t r \<noteq> of_char CHR '':''"
    by (auto simp: unicode_ToLower_def)
  have once: "normalizeSerial ?t ?s = runes ''4a-b0-0f'' @ [233, 107]"
    by (simp add: normalizeSerial_fold fold_rune_def unicode_ToLower_def runes_def)
  from normalizeSerial_idempotent[OF tables, of ?s] show ?thesis
    by (simp only: once simp_thms)
qed

subsection \<open>DNS names\<close>

text \<open>
  C1 (amended). Without expected common names the check accepts exactly when the
  certificate's names and the expected alternative names are the same multiset. With
  expected common names it accepts exactly when the certificate has at least as many
  names as were expected as alternative names, every expected alternative name is among
  the certificate's names, and every name of the certificate is an expected alternative
  name or an expected common name: a common name may appear in the certificate and need
  not.
\<close>

theorem areDNSNamesCorrect_iff:
  "areDNSNamesCorrect actual cnNames altNames \<longleftrightarrow>
     (if cnNames = [] then mset actual = mset altNames
      else length altNames \<le> length actual \<and> set altNames \<subseteq> set actual
           \<and> set actual \<subseteq> set altNames \<union> set cnNames)"
  by (auto simp: areDNSNamesCorrect_def SameStringSlice_mset found_def list_all_iff list_ex_iff
      dest: mset_eq_length)

theorem areDNSNamesCorrect_iff_witness:
  "areDNSNamesCorrect [''cn.example.com'', ''alt.example.com''] [''cn.example.com'']
      [''alt.example.com'']
   \<and> \<not> areDNSNamesCorrect [''alt.example.com'', ''other.example.com''] [''cn.example.com'']
      [''alt.example.com'']
   \<and> areDNSNamesCorrect [''b.example.com'', ''a.example.com''] []
      [''a.example.com'', ''b.example.com'']"
  using
    areDNSNamesCorrect_iff [of "[''cn.example.com'', ''alt.example.com'']"
      "[''cn.example.com'']" "[''alt.example.com'']"]
    areDNSNamesCorrect_iff [of "[''alt.example.com'', ''other.example.com'']"
      "[''cn.example.com'']" "[''alt.example.com'']"]
    areDNSNamesCorrect_iff [of "[''b.example.com'', ''a.example.com'']" "[]"
      "[''a.example.com'', ''b.example.com'']"]
  by simp

theorem areDNSNamesCorrect_cn_absent:
  "areDNSNamesCorrect [''alt.example.com''] [''cn.example.com''] [''alt.example.com'']
   \<and> ''cn.example.com'' \<notin> set [''alt.example.com'']
   \<and> set [''alt.example.com''] \<noteq> set [''cn.example.com''] \<union> set [''alt.example.com'']"
  by (simp add: areDNSNamesCorrect_def found_def)

subsection \<open>IP addresses\<close>

text \<open>
  C7. \<^const>\<open>SameIpSlice\<close> accepts exactly when the texts of the two lists of addresses
  are the same multiset. So it is symmetric, it does not change when either list is
  permuted, and it does not change when addresses are replaced by others that print
  alike.
\<close>

theorem SameIpSlice_unordered:
  "(SameIpSlice String x y \<longleftrightarrow> mset (map String x) = mset (map String y))
   \<and> SameIpSlice String x y = SameIpSlice String y x
   \<and> (mset x' = mset x \<longrightarrow> mset y' = mset y
        \<longrightarrow> SameIpSlice String x' y' = SameIpSlice String x y)
   \<and> (map String x' = map String x \<longrightarrow> SameIpSlice String x' y = SameIpSlice String x y)"
proof -
  have perm: "mset (map String a) = mset (map String b)" if "mset a = mset b" for a b :: "'a list"
    using that by (metis mset_map)
  show ?thesis
    by (auto simp add: SameIpSlice_mset dest: perm)
qed

theorem SameIpSlice_unordered_witness:
  "SameIpSlice (IP_String (\<lambda>ip. ''?'')) [[10, 0, 0, 5], [192, 168, 6, 23]]
      [[0, 0, 0, 0, 0, 0, 0, 0, 0, 0, 255, 255, 192, 168, 6, 23], [10, 0, 0, 5]]
   \<and> \<not> SameIpSlice (IP_String (\<lambda>ip. ''?'')) [[10, 0, 0, 5], [192, 168, 6, 23]]
      [[10, 0, 0, 5], [10, 0, 0, 5]]"
proof -
  let ?S = "IP_String (\<lambda>ip. ''?'')"
  let ?x = "[[192, 168, 6, 23], [10, 0, 0, 5]] :: nat list list"
  let ?x' = "[[10, 0, 0, 5], [192, 168, 6, 23]] :: nat list list"
  let ?y = "[[0, 0, 0, 0, 0, 0, 0, 0, 0, 0, 255, 255, 192, 168, 6, 23], [10, 0, 0, 5]]
    :: nat list list"
  let ?z = "[[10, 0, 0, 5], [10, 0, 0, 5]] :: nat list list"
  have s1: "?S [192, 168, 6, 23] = ''192.168.6.23''" by code_simp
  have s2: "?S [10, 0, 0, 5] = ''10.0.0.5''" by code_simp
  have s3: "?S [0, 0, 0, 0, 0, 0, 0, 0, 0, 0, 255, 255, 192, 168, 6, 23] = ''192.168.6.23''"
    by code_simp
  have p: "mset ?x' = mset ?x" by simp
  note inst = SameIpSlice_unordered [of ?S ?x ?y ?x' ?y]
  have "SameIpSlice ?S ?x ?y"
    using inst [THEN conjunct1] by (simp add: s1 s2 s3)
  moreover have "SameIpSlice ?S ?x' ?y = SameIpSlice ?S ?x ?y"
    using inst [THEN conjunct2, THEN conjunct2, THEN conjunct1] p by simp
  moreover have "\<not> SameIpSlice ?S ?x' ?z"
    using SameIpSlice_unordered [of ?S ?x' ?z ?x' ?z, THEN conjunct1] by (simp add: s1 s2)
  ultimately show ?thesis by simp
qed

subsection \<open>Trust bundles and the HTTP client\<close>

lemma parseTrustBundlePEM_cases:
  "parseTrustBundlePEM lib pem =
     (if pem = [] then Inl ''trust bundle PEM data is empty''
      else if snd (AppendCertsFromPEM lib (NewCertPool lib) pem)
           then Inr (fst (AppendCertsFromPEM lib (NewCertPool lib) pem))
           else Inl ''failed to parse PEM trust bundle'')"
  by (simp add: parseTrustBundlePEM_def Let_def split: prod.splits)

text \<open>
  C4. \<^const>\<open>parseTrustBundlePEM\<close> returns an error, and no pool, when the input is empty
  or the library finds no certificate in it that parses; otherwise it returns the pool
  that the library has filled. It is a function of its input and of the library alone:
  it reads and changes no state of the process.
\<close>

theorem parseTrustBundlePEM_result:
  "(trustBundlePem = [] \<or> \<not> snd (AppendCertsFromPEM lib (NewCertPool lib) trustBundlePem)
      \<longrightarrow> (\<exists>err. parseTrustBundlePEM lib trustBundlePem = Inl err))
   \<and> (trustBundlePem \<noteq> [] \<and> snd (AppendCertsFromPEM lib (NewCertPool lib) trustBundlePem)
      \<longrightarrow> parseTrustBundlePEM lib trustBundlePem
            = Inr (fst (AppendCertsFromPEM lib (NewCertPool lib) trustBundlePem)))"
  by (simp add: parseTrustBundlePEM_cases)

theorem parseTrustBundlePEM_result_witness:
  "parseTrustBundlePEM sample_x509 [] = Inl ''trust bundle PEM data is empty''
   \<and> parseTrustBundlePEM sample_x509 ''not a bundle'' = Inl ''failed to parse PEM trust bundle''
   \<and> parseTrustBundlePEM sample_x509 ''ca.pem'' = Inr [''ca'']"
proof -
  have "\<exists>err. parseTrustBundlePEM sample_x509 [] = Inl err"
    using parseTrustBundlePEM_result [of "[]" sample_x509] by simp
  moreover have "\<exists>err. parseTrustBundlePEM sample_x509 ''not a bundle'' = Inl err"
    using parseTrustBundlePEM_result [of "''not a bundle''" sample_x509]
    by (simp add: sample_x509_def)
  moreover have "parseTrustBundlePEM sample_x509 ''ca.pem'' = Inr [''ca'']"
    using parseTrustBundlePEM_result [of "''ca.pem''" sample_x509]
    by (simp add: sample_x509_def)
  ultimately show ?thesis
    by (auto simp: parseTrustBundlePEM_cases sample_x509_def)
qed

lemma getHTTPClient_frame:
  fixes s :: "('pool, 'z) backend_scheme"
  assumes "getHTTPClient lib pem s = (r, s')"
  shows "Storage s' = Storage s" "puts s' = puts s" "refreshRequests s' = refreshRequests s"
  using assms
  by (auto simp: getHTTPClient_def Let_def new_tls_Config_def tls_Config_Clone_def
      split: sum.splits option.splits prod.splits if_splits)

lemma getHTTPClient_clone_keeps_default:
  assumes "trustBundlePem \<noteq> []"
    and "DefaultTransport_TLSClientConfig s = Some shared" and "shared < allocated s"
    and "getHTTPClient lib trustBundlePem s = (r, s')"
  shows "tlsConfigs s' shared = tlsConfigs s shared"
  using assms
  by (auto simp: getHTTPClient_def Let_def new_tls_Config_def tls_Config_Clone_def
      split: sum.splits option.splits prod.splits if_splits)

text \<open>
  C6. A client that \<^const>\<open>getHTTPClient\<close> returns has dial timeout and keep-alive of 30
  seconds, dual stack enabled, at most 100 idle connections, an idle-connection timeout
  of 90 seconds, a TLS handshake timeout of 10 seconds, an overall timeout of 30
  seconds, and a TLS configuration that renegotiates freely as a client.
\<close>

theorem getHTTPClient_configuration:
  assumes "getHTTPClient lib trustBundlePem s = (Returns (Inr client), s')"
  shows "Dialer_Timeout (DialContext (Transport client)) = 30 * Second
     \<and> KeepAlive (DialContext (Transport client)) = 30 * Second
     \<and> DualStack (DialContext (Transport client))
     \<and> MaxIdleConns (Transport client) = 100
     \<and> IdleConnTimeout (Transport client) = 90 * Second
     \<and> TLSHandshakeTimeout (Transport client) = 10 * Second
     \<and> Timeout client = 30 * Second
     \<and> (\<exists>tlsConfig. TLSClientConfig (Transport client) = Some tlsConfig
           \<and> Renegotiation (tlsConfigs s' tlsConfig) = RenegotiateFreelyAsClient)"
  using assms
  by (auto simp: getHTTPClient_def Let_def new_tls_Config_def tls_Config_Clone_def
      split: sum.splits option.splits prod.splits if_splits)

theorem getHTTPClient_configuration_witness:
  "(\<exists>client. fst (getHTTPClient sample_x509 ''ca.pem'' sample_backend) = Returns (Inr client)
      \<and> Timeout client = 30000000000
      \<and> TLSHandshakeTimeout (Transport client) = 10000000000
      \<and> TLSClientConfig (Transport client) = Some 0)
   \<and> tlsConfigs (snd (getHTTPClient sample_x509 ''ca.pem'' sample_backend)) 0
       = \<lparr>RootCAs = Some [''ca''], Renegotiation = RenegotiateFreelyAsClient\<rparr>"
proof -
  obtain r s' where run: "getHTTPClient sample_x509 ''ca.pem'' sample_backend = (r, s')"
    by (cases "getHTTPClient sample_x509 ''ca.pem'' sample_backend")
  have "\<exists>client. r = Returns (Inr client) \<and> TLSClientConfig (Transport client) = Some 0"
    and cfg0: "tlsConfigs s' 0 = \<lparr>RootCAs = Some [''ca''], Renegotiation = RenegotiateFreelyAsClient\<rparr>"
    using run
    by (auto simp: getHTTPClient_def parseTrustBundlePEM_cases sample_x509_def sample_backend_def
        new_tls_Config_def Let_def)
  then obtain client where r: "r = Returns (Inr client)"
    and p: "TLSClientConfig (Transport client) = Some 0" by blast
  from getHTTPClient_configuration [OF run [unfolded r]]
  have "Timeout client = 30 * Second" "TLSHandshakeTimeout (Transport client) = 10 * Second"
    by simp_all
  with r p cfg0 run show ?thesis by (simp add: Second_def)
qed

text \<open>
  C5. Without a trust bundle \<^const>\<open>getHTTPClient\<close> writes the renegotiation setting
  through the pointer of the default transport: the configuration shared by the process
  is changed in place. When the default transport has no TLS configuration, which is
  how a Go process starts, the same assignment goes through \<^verbatim>\<open>nil\<close> and panics.
\<close>

theorem getHTTPClient_changes_shared_default:
  "DefaultTransport_TLSClientConfig shared_default = Some 0
   \<and> Renegotiation (tlsConfigs shared_default 0) = RenegotiateNever
   \<and> Renegotiation (tlsConfigs (snd (getHTTPClient sample_x509 [] shared_default)) 0)
       = RenegotiateFreelyAsClient
   \<and> fst (getHTTPClient sample_x509 [] sample_backend) = Panics"
  by (simp add: getHTTPClient_def shared_default_def sample_backend_def Let_def)

subsection \<open>Refreshing and storing the access token\<close>

lemma storeAccessData_frame:
  assumes "storeAccessData env roleName resp s = (r, s')"
  shows "refreshRequests s' = refreshRequests s"
  using assms
  by (auto simp: storeAccessData_def Storage_Put_def Let_def
      split: sum.splits option.splits prod.splits if_splits)



lemma storeAccessData_result_cases:
  "(case storeAccessData env roleName resp s of
      (Panics, s) \<Rightarrow> (Panics, s)
    | (Returns (Some err), s) \<Rightarrow> (Returns (Some err), s)
    | (Returns None, s) \<Rightarrow> (Returns None, s)) = storeAccessData env roleName resp s"
  by (simp split: prod.splits exec.splits option.splits)

lemma updateAccessToken_unfold:
  assumes "getHTTPClient (crypto_x509 env) (ConnectionTrust cfg) s = (h, s0)"
  shows "updateAccessToken env cfg roleName s =
    (case h of
       Panics \<Rightarrow> (Panics, s0)
     | Returns (Inl err) \<Rightarrow> (Returns (Some err), s0)
     | Returns (Inr httpClient) \<Rightarrow>
         (case getTppConnector env cfg of
            Inl _ \<Rightarrow> (Panics, s0)
          | Inr tppConnector \<Rightarrow>
              (case Credentials cfg of
                 None \<Rightarrow> (Panics, s0)
               | Some credentials \<Rightarrow>
                   (let request = \<lparr>RefreshToken = RefreshToken credentials,
                                    ClientId = ''hashicorp-vault-by-venafi'',
                                    Scope = ''certificate:manage,revoke''\<rparr>;
                        s1 = s0\<lparr>refreshRequests := refreshRequests s0 @ [request]\<rparr>;
                        answer = RefreshAccessToken env
                                   (tppConnector\<lparr>conn_client := Some httpClient\<rparr>) request
                    in if Access_token (fst answer) \<noteq> [] \<and> Refresh_token (fst answer) \<noteq> []
                       then storeAccessData env roleName (fst answer) s1
                       else (Returns (snd answer), s1)))))"
  using assms
  by (simp add: updateAccessToken_def Let_def storeAccessData_result_cases
      split: sum.splits option.splits prod.splits exec.splits)

text \<open>
  The runs of \<^const>\<open>updateAccessToken\<close>: either it stops before the connector is asked,
  or it asks once, with the request built from \<^verbatim>\<open>cfg.Credentials\<close>, and then either
  hands the answer to \<^const>\<open>storeAccessData\<close> or returns the connector's error.
\<close>

lemma updateAccessToken_paths:
  assumes "updateAccessToken env cfg roleName s = (r, s')"
  obtains (early) s0 where
      "Storage s0 = Storage s" "puts s0 = puts s" "refreshRequests s0 = refreshRequests s"
      "s' = s0" "r \<noteq> Returns None"
  | (refreshed) s0 credentials tppConnector resp err where
      "Storage s0 = Storage s" "puts s0 = puts s" "refreshRequests s0 = refreshRequests s"
      "Credentials cfg = Some credentials"
      "RefreshAccessToken env tppConnector
         \<lparr>RefreshToken = RefreshToken credentials, ClientId = ''hashicorp-vault-by-venafi'',
          Scope = ''certificate:manage,revoke''\<rparr> = (resp, err)"
      "if Access_token resp \<noteq> [] \<and> Refresh_token resp \<noteq> []
       then storeAccessData env roleName resp
              (s0\<lparr>refreshRequests := refreshRequests s0 @
                 [\<lparr>RefreshToken = RefreshToken credentials,
                   ClientId = ''hashicorp-vault-by-venafi'',
                   Scope = ''certificate:manage,revoke''\<rparr>]\<rparr>) = (r, s')
       else r = Returns err \<and>
            s' = s0\<lparr>refreshRequests := refreshRequests s0 @
                 [\<lparr>RefreshToken = RefreshToken credentials,
                   ClientId = ''hashicorp-vault-by-venafi'',
                   Scope = ''certificate:manage,revoke''\<rparr>]\<rparr>"
proof -
  obtain h s0 where h: "getHTTPClient (crypto_x509 env) (ConnectionTrust cfg) s = (h, s0)"
    by (cases "getHTTPClient (crypto_x509 env) (ConnectionTrust cfg) s")
  note fr = getHTTPClient_frame[OF h]
  note run = assms[unfolded updateAccessToken_unfold[OF h]]
  show thesis
  proof (cases h)
    case Panics
    with run have "s' = s0" "r \<noteq> Returns None" by auto
    with fr show thesis by (intro early)
  next
    case (Returns res)
    show thesis
    proof (cases res)
      case (Inl e)
      with run Returns have "s' = s0" "r \<noteq> Returns None" by auto
      with fr show thesis by (intro early)
    next
      case (Inr httpClient)
      show thesis
      proof (cases "getTppConnector env cfg")
        case (Inl e)
        with run Returns Inr have "s' = s0" "r \<noteq> Returns None" by auto
        with fr show thesis by (intro early)
      next
        case conn: (Inr tppConnector)
        show thesis
        proof (cases "Credentials cfg")
          case None
          with run Returns Inr conn have "s' = s0" "r \<noteq> Returns None" by auto
          with fr show thesis by (intro early)
        next
          case (Some credentials)
          let ?request = "\<lparr>RefreshToken = RefreshToken credentials,
              ClientId = ''hashicorp-vault-by-venafi'', Scope = ''certificate:manage,revoke''\<rparr>"
          let ?connector = "tppConnector\<lparr>conn_client := Some httpClient\<rparr>"
          obtain resp err where
            ans: "RefreshAccessToken env ?connector ?request = (resp, err)"
            by (cases "RefreshAccessToken env ?connector ?request")
          from run Returns Inr conn Some ans
          have "if Access_token resp \<noteq> [] \<and> Refresh_token resp \<noteq> []
                then storeAccessData env roleName resp
                       (s0\<lparr>refreshRequests := refreshRequests s0 @ [?request]\<rparr>) = (r, s')
                else r = Returns err
                     \<and> s' = s0\<lparr>refreshRequests := refreshRequests s0 @ [?request]\<rparr>"
            by (auto simp: Let_def split: if_splits)
          with fr Some ans show thesis by (intro refreshed)
        qed
      qed
    qed
  qed
qed



lemma storeAccessData_requests:
  "refreshRequests (snd (storeAccessData env roleName resp s)) = refreshRequests s"
  using storeAccessData_frame[of env roleName resp s]
  by (cases "storeAccessData env roleName resp s") simp

lemma getHTTPClient_Storage_update:
  fixes s :: "('pool, 'z) backend_scheme"
  shows "getHTTPClient lib pem (s\<lparr>Storage := storage\<rparr>) =
     (fst (getHTTPClient lib pem s), (snd (getHTTPClient lib pem s))\<lparr>Storage := storage\<rparr>)"
  by (auto simp: getHTTPClient_def Let_def new_tls_Config_def tls_Config_Clone_def
      split: sum.splits option.splits prod.splits if_splits)

lemma updateAccessToken_requests_ignore_Storage:
  "refreshRequests (snd (updateAccessToken env cfg roleName (s\<lparr>Storage := storage\<rparr>)))
     = refreshRequests (snd (updateAccessToken env cfg roleName s))"
proof -
  obtain h s0 where h: "getHTTPClient (crypto_x509 env) (ConnectionTrust cfg) s = (h, s0)"
    by (cases "getHTTPClient (crypto_x509 env) (ConnectionTrust cfg) s")
  then have h': "getHTTPClient (crypto_x509 env) (ConnectionTrust cfg) (s\<lparr>Storage := storage\<rparr>)
      = (h, s0\<lparr>Storage := storage\<rparr>)"
    by (simp add: getHTTPClient_Storage_update)
  show ?thesis
    unfolding updateAccessToken_unfold[OF h] updateAccessToken_unfold[OF h']
    by (simp add: Let_def storeAccessData_requests split: exec.splits sum.splits option.splits)
qed

text \<open>An answer of the connector that lacks a token is never written.\<close>

lemma updateAccessToken_empty_tokens_no_write:
  assumes "updateAccessToken env cfg roleName s = (r, s')"
    and "\<And>connector request.
           Access_token (fst (RefreshAccessToken env connector request)) = []
           \<or> Refresh_token (fst (RefreshAccessToken env connector request)) = []"
  shows "puts s' = puts s \<and> Storage s' = Storage s"
  using assms(1)
proof (cases rule: updateAccessToken_paths)
  case (early s0)
  then show ?thesis by simp
next
  case (refreshed s0 credentials tppConnector resp err)
  from assms(2)[of tppConnector "\<lparr>RefreshToken = RefreshToken credentials,
      ClientId = ''hashicorp-vault-by-venafi'', Scope = ''certificate:manage,revoke''\<rparr>"]
    refreshed(5)
  have "Access_token resp = [] \<or> Refresh_token resp = []" by simp
  with refreshed show ?thesis by (auto split: if_splits)
qed

text \<open>
  C2. When the connector answers with an empty token and no error, which is what a
  response without a body decodes to, \<^const>\<open>updateAccessToken\<close> writes nothing and
  returns the connector's \<^verbatim>\<open>nil\<close> error: the caller is told that the refresh went well.
\<close>

theorem updateAccessToken_empty_tokens_unreported:
  "fst (updateAccessToken silent_env sample_cfg ''tpp-role'' sample_backend) = Returns None
   \<and> puts (snd (updateAccessToken silent_env sample_cfg ''tpp-role'' sample_backend)) = []
   \<and> Storage (snd (updateAccessToken silent_env sample_cfg ''tpp-role'' sample_backend))
       = Storage sample_backend"
  by (simp add: updateAccessToken_def getTppConnector_def getHTTPClient_def
      parseTrustBundlePEM_cases new_tls_Config_def silent_env_def sample_env_def
      sample_x509_def sample_cfg_def sample_backend_def Let_def)







lemma sample_run:
  "updateAccessToken sample_env sample_cfg ''tpp-role'' sample_backend =
     (Returns None,
      sample_backend
        \<lparr>tlsConfigs := (tlsConfigs sample_backend)
            (0 := \<lparr>RootCAs = Some [''ca''], Renegotiation = RenegotiateFreelyAsClient\<rparr>),
         allocated := 1,
         Storage := (Storage sample_backend)(''venafi/tpp-secret'' \<mapsto> ''new-access new-refresh''),
         puts := [\<lparr>Key = ''venafi/tpp-secret'', Value = ''new-access new-refresh''\<rparr>],
         refreshRequests := [\<lparr>RefreshToken = ''old-refresh'',
                              ClientId = ''hashicorp-vault-by-venafi'',
                              Scope = ''certificate:manage,revoke''\<rparr>]\<rparr>)"
  by (simp add: updateAccessToken_def getTppConnector_def getHTTPClient_def
      parseTrustBundlePEM_cases new_tls_Config_def storeAccessData_def Storage_Put_def
      sample_env_def sample_x509_def sample_cfg_def sample_backend_def Let_def)

text \<open>
  C8 (amended). A run of \<^const>\<open>updateAccessToken\<close> hands the connector no request or
  exactly one, and that one carries the refresh token of \<^verbatim>\<open>cfg.Credentials\<close>, the
  configuration that the caller passes in, together with the client identifier
  \<^verbatim>\<open>hashicorp-vault-by-venafi\<close> and the scope \<^verbatim>\<open>certificate:manage,revoke\<close>. The
  storage is not read for the request: with any other stored data the same requests are
  made.
\<close>

theorem updateAccessToken_refresh_request:
  assumes "updateAccessToken env cfg roleName s = (r, s')"
  shows "(refreshRequests s' = refreshRequests s
     \<or> (\<exists>credentials connector resp err.
           Credentials cfg = Some credentials
         \<and> refreshRequests s' = refreshRequests s @
              [\<lparr>RefreshToken = RefreshToken credentials,
                ClientId = ''hashicorp-vault-by-venafi'',
                Scope = ''certificate:manage,revoke''\<rparr>]
         \<and> RefreshAccessToken env connector
              \<lparr>RefreshToken = RefreshToken credentials,
               ClientId = ''hashicorp-vault-by-venafi'',
               Scope = ''certificate:manage,revoke''\<rparr> = (resp, err)
         \<and> (if Access_token resp \<noteq> [] \<and> Refresh_token resp \<noteq> []
             then \<exists>s1. storeAccessData env roleName resp s1 = (r, s')
             else r = Returns err)))
   \<and> refreshRequests (snd (updateAccessToken env cfg roleName (s\<lparr>Storage := storage\<rparr>)))
       = refreshRequests s'"
proof
  show "refreshRequests s' = refreshRequests s
     \<or> (\<exists>credentials connector resp err.
           Credentials cfg = Some credentials
         \<and> refreshRequests s' = refreshRequests s @
              [\<lparr>RefreshToken = RefreshToken credentials,
                ClientId = ''hashicorp-vault-by-venafi'',
                Scope = ''certificate:manage,revoke''\<rparr>]
         \<and> RefreshAccessToken env connector
              \<lparr>RefreshToken = RefreshToken credentials,
               ClientId = ''hashicorp-vault-by-venafi'',
               Scope = ''certificate:manage,revoke''\<rparr> = (resp, err)
         \<and> (if Access_token resp \<noteq> [] \<and> Refresh_token resp \<noteq> []
             then \<exists>s1. storeAccessData env roleName resp s1 = (r, s')
             else r = Returns err))"
    using assms
  proof (cases rule: updateAccessToken_paths)
    case (early s0)
    then show ?thesis by simp
  next
    case (refreshed s0 credentials tppConnector resp err)
    let ?request = "\<lparr>RefreshToken = RefreshToken credentials,
        ClientId = ''hashicorp-vault-by-venafi'', Scope = ''certificate:manage,revoke''\<rparr>"
    from refreshed have "refreshRequests s' = refreshRequests s @ [?request]"
      by (auto split: if_splits dest: storeAccessData_frame)
    moreover from refreshed
    have "if Access_token resp \<noteq> [] \<and> Refresh_token resp \<noteq> []
          then \<exists>s1. storeAccessData env roleName resp s1 = (r, s') else r = Returns err"
      by (auto split: if_splits)
    ultimately show ?thesis using refreshed(4,5) by blast
  qed
  show "refreshRequests (snd (updateAccessToken env cfg roleName (s\<lparr>Storage := storage\<rparr>)))
       = refreshRequests s'"
    using updateAccessToken_requests_ignore_Storage[of env cfg roleName storage s] assms
    by simp
qed

theorem updateAccessToken_refresh_request_witness:
  "refreshRequests (snd (updateAccessToken sample_env sample_cfg ''tpp-role'' sample_backend))
     = [\<lparr>RefreshToken = ''old-refresh'', ClientId = ''hashicorp-vault-by-venafi'',
         Scope = ''certificate:manage,revoke''\<rparr>]
   \<and> Credentials sample_cfg
     = Some \<lparr>RefreshToken = ''old-refresh'', ClientId = [], Scope = []\<rparr>
   \<and> refreshRequests (snd (updateAccessToken sample_env sample_cfg ''tpp-role''
        (sample_backend\<lparr>Storage := Map.empty\<rparr>)))
     = [\<lparr>RefreshToken = ''old-refresh'', ClientId = ''hashicorp-vault-by-venafi'',
         Scope = ''certificate:manage,revoke''\<rparr>]"
proof -
  obtain r s' where
    run: "updateAccessToken sample_env sample_cfg ''tpp-role'' sample_backend = (r, s')"
    by (cases "updateAccessToken sample_env sample_cfg ''tpp-role'' sample_backend")
  have creds: "Credentials sample_cfg
      = Some \<lparr>RefreshToken = ''old-refresh'', ClientId = [], Scope = []\<rparr>"
    by (simp add: sample_cfg_def)
  have start: "refreshRequests sample_backend = []" by (simp add: sample_backend_def)
  have made: "refreshRequests s' \<noteq> []" using run sample_run by auto
  note inst = updateAccessToken_refresh_request [OF run, of Map.empty]
  from inst [THEN conjunct1] made creds start
  have sent: "refreshRequests s' = [\<lparr>RefreshToken = ''old-refresh'',
      ClientId = ''hashicorp-vault-by-venafi'', Scope = ''certificate:manage,revoke''\<rparr>]"
    by auto
  with inst [THEN conjunct2] run creds show ?thesis by simp
qed

theorem updateAccessToken_sends_cfg_token:
  "getRole sample_env (Storage sample_backend) ''tpp-role''
     = Inr (Some \<lparr>VenafiSecret = ''tpp-secret''\<rparr>)
   \<and> getVenafiSecret sample_env (Storage sample_backend) ''tpp-secret''
     = Inr (Some \<lparr>entry_AccessToken = ''old-access'', entry_RefreshToken = ''old-refresh''\<rparr>)
   \<and> refreshRequests (snd (updateAccessToken sample_env stale_cfg ''tpp-role'' sample_backend))
     = [\<lparr>RefreshToken = ''stale'', ClientId = ''hashicorp-vault-by-venafi'',
         Scope = ''certificate:manage,revoke''\<rparr>]"
  by (simp add: updateAccessToken_def getTppConnector_def getHTTPClient_def
      parseTrustBundlePEM_cases new_tls_Config_def
      sample_env_def sample_x509_def sample_cfg_def stale_cfg_def sample_backend_def Let_def)

text \<open>
  C10. When the role that \<^const>\<open>storeAccessData\<close> reads has an empty Venafi secret
  reference, the call returns an error and the state, the stored data included, is the
  one it started from.
\<close>

theorem storeAccessData_without_secret:
  assumes "getRole env (Storage s) roleName = Inr (Some entry)" and "VenafiSecret entry = []"
  shows "storeAccessData env roleName resp s =
    (Returns (Some (''Role '' @ roleName @ '' does not have any Venafi secret associated'')), s)"
  using assms by (simp add: storeAccessData_def)

theorem storeAccessData_without_secret_witness:
  "getRole sample_env (Storage sample_backend) ''bare-role'' = Inr (Some \<lparr>VenafiSecret = []\<rparr>)
   \<and> storeAccessData sample_env ''bare-role''
        \<lparr>Access_token = ''new-access'', Refresh_token = ''new-refresh''\<rparr> sample_backend
     = (Returns (Some ''Role bare-role does not have any Venafi secret associated''),
        sample_backend)"
proof -
  have role: "getRole sample_env (Storage sample_backend) ''bare-role''
      = Inr (Some \<lparr>VenafiSecret = []\<rparr>)"
    by (simp add: sample_env_def sample_backend_def)
  from storeAccessData_without_secret [OF role, of "\<lparr>Access_token = ''new-access'', Refresh_token = ''new-refresh''\<rparr>"]
    role show ?thesis by simp
qed

end
